theory Spec2Isabelle
  imports Complex_Main
begin

section \<open>Values exchanged with the operator and the vehicle\<close>

text \<open>
  The server is Python 2.7 code around three groups of module globals: the DroneKit
  vehicle object, the flags and the last joystick command shared by the worker threads,
  and the client sets. Python floats (times, altitudes, velocities) are modelled as
  reals: comparisons are exact, and the rounding of float arithmetic is not modelled.

  A JSON value, as \<open>json.loads\<close> returns it and \<open>json.dumps\<close> takes it. An object is
  the list of its items. A number written as an integer is parsed to an \<open>int\<close> (a
  \<open>long\<close> when it is large), any other number to a \<open>float\<close>.
\<close>

datatype json =
    JNull
  | JBool bool
  | JInt int
  | JNum real
  | JStr string
  | JArr "json list"
  | JObj "(string \<times> json) list"

text \<open>
  Reading an attribute of the vehicle either yields a value or raises; the text of the
  exception is kept because one handler reports it.
\<close>

datatype 'a attr = Raised string | Got 'a

text \<open>
  What reading \<open>vehicle.location.global_relative_frame.alt\<close> can meet: an exception,
  a missing location, a missing relative frame, the value \<open>None\<close>, or a number.
\<close>

datatype alt_read = AltRaised | NoLocation | NoRelativeFrame | AltNone | Alt real

record snapshot =
  mode_name :: "string attr"
  armed :: bool
  altitude :: alt_read
  takeoff_raises :: "string option"
  attrs :: "string \<Rightarrow> json attr"

text \<open>
  The fields of the MAVLink message built by
  \<open>message_factory.set_position_target_local_ned_encode\<close>, in the order of its arguments.
\<close>

record mav_msg =
  msg_time_boot_ms :: nat
  msg_target_system :: nat
  msg_target_component :: nat
  msg_frame :: nat
  msg_type_mask :: nat
  msg_x :: real
  msg_y :: real
  msg_z :: real
  msg_vx :: real
  msg_vy :: real
  msg_vz :: real
  msg_afx :: real
  msg_afy :: real
  msg_afz :: real
  msg_yaw :: real
  msg_yaw_rate :: real

definition set_position_target_local_ned_encode ::
  "nat \<Rightarrow> nat \<Rightarrow> nat \<Rightarrow> nat \<Rightarrow> nat \<Rightarrow> real \<Rightarrow> real \<Rightarrow> real \<Rightarrow> real \<Rightarrow> real \<Rightarrow> real
    \<Rightarrow> real \<Rightarrow> real \<Rightarrow> real \<Rightarrow> real \<Rightarrow> real \<Rightarrow> mav_msg" where
  "set_position_target_local_ned_encode t ts tc fr tm px py pz velx vely velz ax ay az yw yr =
     \<lparr>msg_time_boot_ms = t, msg_target_system = ts, msg_target_component = tc,
      msg_frame = fr, msg_type_mask = tm, msg_x = px, msg_y = py, msg_z = pz,
      msg_vx = velx, msg_vy = vely, msg_vz = velz, msg_afx = ax, msg_afy = ay, msg_afz = az,
      msg_yaw = yw, msg_yaw_rate = yr\<rparr>"

text \<open>
  The writes the server makes to the vehicle: assigning \<open>vehicle.mode\<close>, assigning
  \<open>vehicle.armed\<close>, \<open>vehicle.send_mavlink\<close> and \<open>vehicle.simple_takeoff\<close>.
\<close>

datatype vcall =
    SetMode string
  | SetArmed bool
  | SendMavlink mav_msg
  | SimpleTakeoff real

text \<open>
  The vehicle is an external object whose state moves on its own. It is modelled by what
  it answers: given the writes made so far and the current time, the snapshot a read
  returns. Reads take no time; the vehicle changes only when time passes or a write is made.
\<close>

type_synonym vehicle = "vcall list \<Rightarrow> real \<Rightarrow> snapshot"

section \<open>Shared state\<close>

record velocity_cmd =
  cmd_vx :: real
  cmd_vy :: real
  cmd_vz :: real
  cmd_yaw_rate :: real

datatype thread = DoTakeoffThread real | WatcherThread real

text \<open>
  The module globals, together with the clock read by \<open>time.time()\<close>, the trace of the
  writes made to the vehicle and the threads started so far. \<open>vehicle = None\<close> is the
  global before a connection exists.
\<close>

record world =
  vehicle :: "vehicle option"
  last_velocity_cmd :: velocity_cmd
  last_joystick_time :: real
  takeoff_in_progress :: bool
  takeoff_target_alt :: "real option"
  landing_in_progress :: bool
  recent_statustext :: "(real \<times> json \<times> string) list"
  now :: real
  calls :: "vcall list"
  threads :: "thread list"

definition CONTROL_HZ :: real where
  "CONTROL_HZ = 20"

definition VELOCITY_TIMEOUT :: real where
  "VELOCITY_TIMEOUT = 0.5"

definition DEFAULT_TAKEOFF_ALT :: real where
  "DEFAULT_TAKEOFF_ALT = 1.5"

definition read_vehicle :: "vehicle \<Rightarrow> world \<Rightarrow> snapshot" where
  "read_vehicle v w = v (calls w) (now w)"

text \<open>\<open>time.sleep(d)\<close> moves the clock by \<open>d\<close>.\<close>

definition time_sleep :: "real \<Rightarrow> world \<Rightarrow> world" where
  "time_sleep d w = w\<lparr>now := now w + d\<rparr>"

definition vehicle_call :: "vcall \<Rightarrow> world \<Rightarrow> world" where
  "vehicle_call c w = w\<lparr>calls := calls w @ [c]\<rparr>"

definition sent_msgs :: "vcall list \<Rightarrow> mav_msg list" where
  "sent_msgs cs = concat (map (\<lambda>c. case c of SendMavlink m \<Rightarrow> [m] | _ \<Rightarrow> []) cs)"

section \<open>Utility functions\<close>

text \<open>\<open>safe_alt\<close>: the relative altitude, and \<open>0.0\<close> whenever it cannot be read.\<close>

definition safe_alt :: "world \<Rightarrow> real" where
  "safe_alt w =
     (case vehicle w of
        None \<Rightarrow> 0
      | Some v \<Rightarrow> (case altitude (read_vehicle v w) of Alt a \<Rightarrow> a | _ \<Rightarrow> 0))"

section \<open>Mode and arm controllers\<close>

text \<open>
  The exceptions the server's own code can raise, and the Python values that reach the
  parameter \<open>attempts\<close> of \<open>ensure_mode\<close>: an integer, or a string.
\<close>

datatype exn =
    TypeError
  | ValueError
  | AttributeError
  | OverflowError
  | UnicodeEncodeError
  | UnicodeDecodeError

datatype pyval = PyInt int | PyStr string

text \<open>\<open>str.upper()\<close> on ASCII: a lower-case letter loses bit 5.\<close>

definition upper_char :: "char \<Rightarrow> char" where
  "upper_char c =
     (if 97 \<le> (of_char c :: nat) \<and> (of_char c :: nat) \<le> 122
      then Char (digit0 c) (digit1 c) (digit2 c) (digit3 c) (digit4 c) False (digit6 c) (digit7 c)
      else c)"

definition upper :: "string \<Rightarrow> string" where
  "upper s = map upper_char s"

text \<open>
  The inner loop of \<open>ensure_mode\<close>: poll \<open>vehicle.mode.name\<close> every 0.5 s until it is
  the target or \<open>wait_each\<close> seconds have passed since \<open>t0\<close>. A failing read counts as
  "not yet".
\<close>

function mode_wait :: "vehicle \<Rightarrow> string \<Rightarrow> real \<Rightarrow> real \<Rightarrow> world \<Rightarrow> bool \<times> world" where
  "mode_wait v target t0 wait_each w =
     (if now w - t0 < wait_each then
        (if mode_name (read_vehicle v w) = Got target then (True, w)
         else mode_wait v target t0 wait_each (time_sleep 0.5 w))
      else (False, w))"
  by pat_completeness auto
termination
proof (relation "measure (\<lambda>(v, target, t0, wait_each, w). nat \<lceil>(t0 + wait_each - now w) * 2\<rceil>)",
    goal_cases)
  case 1
  show ?case by simp
next
  case (2 v target t0 wait_each w)
  define x where "x = (t0 + wait_each - now w) * 2"
  have a: "(t0 + wait_each - now (time_sleep 0.5 w)) * 2 = x - 1"
    unfolding x_def by (simp add: time_sleep_def field_simps)
  have "0 < x"
    unfolding x_def using 2 by simp
  then have lt: "nat \<lceil>x - 1\<rceil> < nat \<lceil>x\<rceil>"
    by linarith
  show ?case
    by (simp only: in_measure prod.case a x_def [symmetric] lt)
qed

declare mode_wait.simps [simp del]

text \<open>
  The outer loop, \<open>for i in range(attempts)\<close>: assign \<open>vehicle.mode\<close> (an exception of
  the assignment is caught and only printed), wait, and try again after a failure.
  \<open>print_blockers\<close> only prints.
\<close>

fun mode_attempts :: "nat \<Rightarrow> vehicle \<Rightarrow> string \<Rightarrow> real \<Rightarrow> world \<Rightarrow> bool \<times> world" where
  "mode_attempts 0 v target wait_each w = (False, w)"
| "mode_attempts (Suc n) v target wait_each w =
     (let w1 = vehicle_call (SetMode target) w;
          r = mode_wait v target (now w1) wait_each w1
      in if fst r then (True, snd r) else mode_attempts n v target wait_each (snd r))"

text \<open>
  \<open>ensure_mode(target, attempts=3, wait_each=6.0)\<close>. \<open>range(attempts)\<close> raises
  \<open>TypeError\<close> when \<open>attempts\<close> is a string, and is empty when it is not positive.
\<close>

definition ensure_mode :: "string \<Rightarrow> pyval \<Rightarrow> real \<Rightarrow> world \<Rightarrow> (exn + bool) \<times> world" where
  "ensure_mode target attempts wait_each w =
     (case vehicle w of
        None \<Rightarrow> (Inr False, w)
      | Some v \<Rightarrow>
          if mode_name (read_vehicle v w) = Got (upper target) then (Inr True, w)
          else
            (case attempts of
               PyStr s \<Rightarrow> (Inl TypeError, w)
             | PyInt n \<Rightarrow>
                 (let r = mode_attempts (nat n) v (upper target) wait_each w
                  in (Inr (fst r), snd r))))"

text \<open>The loop of \<open>arm_vehicle\<close>: poll \<open>vehicle.armed\<close> every 0.3 s for up to 10 s.\<close>

function arm_wait :: "vehicle \<Rightarrow> real \<Rightarrow> world \<Rightarrow> world" where
  "arm_wait v t0 w =
     (if \<not> armed (read_vehicle v w) \<and> now w - t0 < 10 then arm_wait v t0 (time_sleep 0.3 w)
      else w)"
  by pat_completeness auto
termination
proof (relation "measure (\<lambda>(v, t0, w). nat \<lceil>(t0 + 10 - now w) * 10 / 3\<rceil>)", goal_cases)
  case 1
  show ?case by simp
next
  case (2 v t0 w)
  define x where "x = (t0 + 10 - now w) * 10 / 3"
  have a: "(t0 + 10 - now (time_sleep 0.3 w)) * 10 / 3 = x - 1"
    unfolding x_def by (simp add: time_sleep_def field_simps)
  have "0 < x"
    unfolding x_def using 2 by simp
  then have lt: "nat \<lceil>x - 1\<rceil> < nat \<lceil>x\<rceil>"
    by linarith
  show ?case
    by (simp only: in_measure prod.case a x_def [symmetric] lt)
qed

declare arm_wait.simps [simp del]

definition arm_vehicle :: "world \<Rightarrow> bool \<times> world" where
  "arm_vehicle w =
     (case vehicle w of
        None \<Rightarrow> (False, w)
      | Some v \<Rightarrow>
          if armed (read_vehicle v w) then (True, w)
          else
            (let w1 = vehicle_call (SetArmed True) w;
                 w2 = arm_wait v (now w1) w1
             in if armed (read_vehicle v w2) then (True, w2) else (False, w2)))"

text \<open>The loop of \<open>disarm_vehicle\<close>: poll every 0.3 s for up to 8 s.\<close>

function disarm_wait :: "vehicle \<Rightarrow> real \<Rightarrow> world \<Rightarrow> world" where
  "disarm_wait v t0 w =
     (if armed (read_vehicle v w) \<and> now w - t0 < 8 then disarm_wait v t0 (time_sleep 0.3 w)
      else w)"
  by pat_completeness auto
termination
proof (relation "measure (\<lambda>(v, t0, w). nat \<lceil>(t0 + 8 - now w) * 10 / 3\<rceil>)", goal_cases)
  case 1
  show ?case by simp
next
  case (2 v t0 w)
  define x where "x = (t0 + 8 - now w) * 10 / 3"
  have a: "(t0 + 8 - now (time_sleep 0.3 w)) * 10 / 3 = x - 1"
    unfolding x_def by (simp add: time_sleep_def field_simps)
  have "0 < x"
    unfolding x_def using 2 by simp
  then have lt: "nat \<lceil>x - 1\<rceil> < nat \<lceil>x\<rceil>"
    by linarith
  show ?case
    by (simp only: in_measure prod.case a x_def [symmetric] lt)
qed

declare disarm_wait.simps [simp del]

text \<open>
  \<open>disarm_vehicle\<close>: no vehicle, failure; already disarmed, success; above 0.2 m, refusal;
  otherwise the write and the wait.
\<close>

definition disarm_vehicle :: "world \<Rightarrow> bool \<times> world" where
  "disarm_vehicle w =
     (case vehicle w of
        None \<Rightarrow> (False, w)
      | Some v \<Rightarrow>
          if \<not> armed (read_vehicle v w) then (True, w)
          else if safe_alt w > 0.2 then (False, w)
          else
            (let w1 = vehicle_call (SetArmed False) w;
                 w2 = disarm_wait v (now w1) w1
             in if \<not> armed (read_vehicle v w2) then (True, w2) else (False, w2)))"

section \<open>Velocity command\<close>

text \<open>
  \<open>send_ned_velocity\<close> builds a SET_POSITION_TARGET_LOCAL_NED message in frame 1
  (MAV_FRAME_LOCAL_NED) with type mask \<open>0b0000111111000111 = 4039\<close> and hands it to
  \<open>send_mavlink\<close>. The parameter \<open>yaw_rate\<close> is not used: the message's yaw rate is the
  constant 0. An exception while sending is swallowed; the trace records the attempt.
\<close>

definition send_ned_velocity :: "real \<Rightarrow> real \<Rightarrow> real \<Rightarrow> real \<Rightarrow> world \<Rightarrow> world" where
  "send_ned_velocity velx vely velz yaw_rate w =
     (case vehicle w of
        None \<Rightarrow> w
      | Some v \<Rightarrow>
          vehicle_call
            (SendMavlink
              (set_position_target_local_ned_encode 0 0 0 1 4039 0 0 0 velx vely velz 0 0 0 0 0))
            w)"

section \<open>Takeoff\<close>

text \<open>
  The steps of \<open>do_takeoff\<close> after its two guards. The call
  \<open>ensure_mode("GUIDED", "GUIDED_NOGPS")\<close> binds the string to \<open>attempts\<close>. An exception
  of \<open>simple_takeoff\<close> is caught and ends the call; otherwise the flags are set and the
  watcher thread is started.
\<close>

definition do_takeoff_steps :: "real \<Rightarrow> world \<Rightarrow> (exn + unit) \<times> world" where
  "do_takeoff_steps target_alt w =
     (case ensure_mode ''GUIDED'' (PyStr ''GUIDED_NOGPS'') 6.0 w of
        (Inl e, w1) \<Rightarrow> (Inl e, w1)
      | (Inr False, w1) \<Rightarrow> (Inr (), w1)
      | (Inr True, w1) \<Rightarrow>
          (case arm_vehicle w1 of
             (False, w2) \<Rightarrow> (Inr (), w2)
           | (True, w2) \<Rightarrow>
               (case vehicle w2 of
                  None \<Rightarrow> (Inr (), w2)
                | Some v \<Rightarrow>
                    (let w3 = vehicle_call (SimpleTakeoff target_alt) w2 in
                       case takeoff_raises (read_vehicle v w2) of
                         Some e \<Rightarrow> (Inr (), w3)
                       | None \<Rightarrow>
                           (Inr (),
                            w3\<lparr>takeoff_in_progress := True,
                               takeoff_target_alt := Some target_alt,
                               threads := threads w3 @ [WatcherThread target_alt]\<rparr>)))))"

definition do_takeoff :: "real \<Rightarrow> world \<Rightarrow> (exn + unit) \<times> world" where
  "do_takeoff target_alt w =
     (case vehicle w of
        None \<Rightarrow> (Inr (), w)
      | Some v \<Rightarrow>
          if safe_alt w > 0.5 then (Inr (), w)
          else do_takeoff_steps target_alt w)"

text \<open>
  The loop of the watcher thread: every 0.5 s for up to 30 s, compare the altitude with
  98 percent of the target; once reached, sleep 2 s and leave.
\<close>

function watcher_loop :: "real \<Rightarrow> real \<Rightarrow> world \<Rightarrow> world" where
  "watcher_loop target_alt t0 w =
     (if now w - t0 < 30 then
        (if safe_alt w \<ge> target_alt * 0.98 then time_sleep 2.0 w
         else watcher_loop target_alt t0 (time_sleep 0.5 w))
      else w)"
  by pat_completeness auto
termination
proof (relation "measure (\<lambda>(target_alt, t0, w). nat \<lceil>(t0 + 30 - now w) * 2\<rceil>)", goal_cases)
  case 1
  show ?case by simp
next
  case (2 target_alt t0 w)
  define x where "x = (t0 + 30 - now w) * 2"
  have a: "(t0 + 30 - now (time_sleep 0.5 w)) * 2 = x - 1"
    unfolding x_def by (simp add: time_sleep_def field_simps)
  have "0 < x"
    unfolding x_def using 2 by simp
  then have lt: "nat \<lceil>x - 1\<rceil> < nat \<lceil>x\<rceil>"
    by linarith
  show ?case
    by (simp only: in_measure prod.case a x_def [symmetric] lt)
qed

declare watcher_loop.simps [simp del]

text \<open>
  \<open>watcher\<close>, the closure started by \<open>do_takeoff\<close>: after the loop it assigns
  \<open>takeoff_in_progress = False\<close>. It declares \<open>takeoff_target_alt\<close> global and never
  assigns it.
\<close>

definition watcher :: "real \<Rightarrow> world \<Rightarrow> world" where
  "watcher target_alt w = (watcher_loop target_alt (now w) w)\<lparr>takeoff_in_progress := False\<rparr>"

section \<open>Operator commands\<close>

text \<open>
  The message texts of the source are Chinese; they are given here by their UTF-8 bytes,
  each with an English gloss.
\<close>

definition utf8 :: "nat list \<Rightarrow> string" where
  "utf8 bs = map char_of bs"

text \<open>Gloss: In LOITER; switch to GUIDED to enable the joystick.\<close>

definition msg_loiter_no_joystick :: string where
  "msg_loiter_no_joystick =
     utf8 [229, 189, 147, 229, 137, 141, 229, 156, 168, 32, 76, 79, 73, 84, 69, 82, 32, 230,
       168, 161, 229, 188, 143, 239, 188, 140, 232, 175, 183, 229, 136, 135, 230, 141, 162,
       229, 136, 176, 32, 71, 85, 73, 68, 69, 68, 32, 230, 168, 161, 229, 188, 143, 228, 187,
       165, 229, 144, 175, 231, 148, 168, 230, 145, 135, 230, 157, 134, 230, 142, 167, 229,
       136, 182]"

text \<open>Gloss: Empty mode.\<close>

definition msg_empty_mode :: string where
  "msg_empty_mode =
     utf8 [231, 169, 186, 230, 168, 161, 229, 188, 143]"

text \<open>Gloss: In LOITER, already hovering; switch to GUIDED for joystick control.\<close>

definition msg_loiter_hovering :: string where
  "msg_loiter_hovering =
     utf8 [229, 189, 147, 229, 137, 141, 229, 156, 168, 32, 76, 79, 73, 84, 69, 82, 32, 230,
       168, 161, 229, 188, 143, 239, 188, 140, 229, 183, 178, 232, 135, 170, 229, 138, 168,
       230, 130, 172, 229, 129, 156, 227, 128, 130, 229, 166, 130, 233, 156, 128, 230, 145,
       135, 230, 157, 134, 230, 142, 167, 229, 136, 182, 239, 188, 140, 232, 175, 183, 229,
       136, 135, 230, 141, 162, 229, 136, 176, 32, 71, 85, 73, 68, 69, 68, 32, 230, 168, 161,
       229, 188, 143]"

text \<open>Gloss: Joystick control enabled.\<close>

definition msg_joystick_enabled :: string where
  "msg_joystick_enabled =
     utf8 [230, 145, 135, 230, 157, 134, 230, 142, 167, 229, 136, 182, 229, 183, 178, 229, 144,
       175, 231, 148, 168]"

text \<open>Gloss: In LAND; no joystick while landing.\<close>

definition msg_land_no_joystick :: string where
  "msg_land_no_joystick =
     utf8 [229, 189, 147, 229, 137, 141, 229, 156, 168, 32, 76, 65, 78, 68, 32, 230, 168, 161,
       229, 188, 143, 239, 188, 140, 233, 153, 141, 232, 144, 189, 232, 191, 135, 231, 168,
       139, 228, 184, 173, 230, 145, 135, 230, 157, 134, 228, 184, 141, 229, 143, 175, 231,
       148, 168]"

text \<open>Gloss: The current mode does not support joystick control.\<close>

definition msg_mode_no_joystick :: string where
  "msg_mode_no_joystick =
     utf8 [229, 189, 147, 229, 137, 141, 230, 168, 161, 229, 188, 143, 228, 184, 141, 230, 148,
       175, 230, 140, 129, 230, 145, 135, 230, 157, 134, 230, 142, 167, 229, 136, 182]"

text \<open>Gloss: Cannot read the flight mode.\<close>

definition msg_mode_unreadable :: string where
  "msg_mode_unreadable =
     utf8 [230, 151, 160, 230, 179, 149, 232, 142, 183, 229, 143, 150, 233, 163, 158, 232, 161,
       140, 230, 168, 161, 229, 188, 143]"

text \<open>
  What the handler takes from the Python runtime: \<open>json.loads\<close> (the text of the
  exception on malformed input, which is ASCII, the value otherwise), \<open>float()\<close> on a
  string,
  \<open>str()\<close> on a number, a list or a dictionary, and whether a byte string decodes as
  UTF-8.
\<close>

record pylib =
  json_loads :: "string \<Rightarrow> string + json"
  float_of_str :: "string \<Rightarrow> real option"
  repr :: "json \<Rightarrow> string"
  utf8_decodes :: "string \<Rightarrow> bool"

text \<open>
  \<open>float(x)\<close> for a value \<open>x\<close> out of a parsed message. A float is returned as it
  is. An integer is converted with rounding to nearest, and \<open>OverflowError\<close> is raised
  when the result would pass the largest double: from \<open>2^1024 - 2^970\<close> on, in
  absolute value. The rounding itself is not modelled.
\<close>

definition py_float :: "pylib \<Rightarrow> json \<Rightarrow> exn + real" where
  "py_float lib x =
     (case x of
        JNum r \<Rightarrow> Inr r
      | JInt n \<Rightarrow> if \<bar>n\<bar> < 2 ^ 1024 - 2 ^ 970 then Inr (of_int n) else Inl OverflowError
      | JBool b \<Rightarrow> Inr (if b then 1 else 0)
      | JStr s \<Rightarrow> (case float_of_str lib s of None \<Rightarrow> Inl ValueError | Some r \<Rightarrow> Inr r)
      | _ \<Rightarrow> Inl TypeError)"

text \<open>
  \<open>str(x)\<close> in Python 2.7: a parsed string is a \<open>unicode\<close> object, and converting it
  raises \<open>UnicodeEncodeError\<close> unless every character is ASCII.
\<close>

definition py_str :: "pylib \<Rightarrow> json \<Rightarrow> exn + string" where
  "py_str lib x =
     (case x of
        JStr s \<Rightarrow>
          if list_all (\<lambda>c. (of_char c :: nat) < 128) s then Inr s else Inl UnicodeEncodeError
      | JNull \<Rightarrow> Inr ''None''
      | JBool b \<Rightarrow> Inr (if b then ''True'' else ''False'')
      | _ \<Rightarrow> Inr (repr lib x))"

text \<open>Whether a conversion returns a value.\<close>

definition returned :: "exn + 'a \<Rightarrow> bool" where
  "returned r = (case r of Inl _ \<Rightarrow> False | Inr _ \<Rightarrow> True)"

text \<open>
  The strings inside a value, keys included. \<open>json.dumps\<close> decodes every byte string
  it meets as UTF-8 and raises \<open>UnicodeDecodeError\<close> on one that does not decode.
\<close>

fun json_strings :: "json \<Rightarrow> string list" where
  "json_strings (JStr s) = [s]"
| "json_strings (JArr xs) = concat (map json_strings xs)"
| "json_strings (JObj kvs) = concat (map (\<lambda>(k, v). k # json_strings v) kvs)"
| "json_strings _ = []"

definition dumps_accepts :: "pylib \<Rightarrow> json \<Rightarrow> bool" where
  "dumps_accepts lib x = list_all (utf8_decodes lib) (json_strings x)"

text \<open>\<open>d.get(k, default)\<close>.\<close>

definition dict_get :: "(string \<times> json) list \<Rightarrow> string \<Rightarrow> json \<Rightarrow> json" where
  "dict_get d k dflt = (case map_of d k of None \<Rightarrow> dflt | Some x \<Rightarrow> x)"

text \<open>The field of a reply, for reading it back.\<close>

definition field :: "json \<Rightarrow> string \<Rightarrow> json option" where
  "field r k = (case r of JObj kv \<Rightarrow> map_of kv k | _ \<Rightarrow> None)"

subsection \<open>Status report\<close>

definition attr_or_none :: "json attr \<Rightarrow> json" where
  "attr_or_none a = (case a of Got x \<Rightarrow> x | Raised _ \<Rightarrow> JNull)"

text \<open>\<open>getattr(obj, name, None)\<close>.\<close>

definition getattr :: "json \<Rightarrow> string \<Rightarrow> json" where
  "getattr obj name = (case obj of JObj kv \<Rightarrow> dict_get kv name JNull | _ \<Rightarrow> JNull)"

text \<open>
  A dictionary of the named attributes of an object; \<open>None\<close> when reading the object or
  one of them raises.
\<close>

definition sub_attrs :: "json attr \<Rightarrow> (string \<times> string) list \<Rightarrow> json" where
  "sub_attrs a names =
     (case a of
        Got (JObj kv) \<Rightarrow>
          if list_all (\<lambda>n. map_of kv (snd n) \<noteq> None) names
          then JObj (map (\<lambda>n. (fst n, dict_get kv (snd n) JNull)) names)
          else JNull
      | _ \<Rightarrow> JNull)"

definition control_status :: "vehicle \<Rightarrow> world \<Rightarrow> json" where
  "control_status v w =
     (if armed (read_vehicle v w) then
        (case mode_name (read_vehicle v w) of
           Raised _ \<Rightarrow>
             JObj [(''can_control'', JBool False), (''current_mode'', JNull),
                   (''message'', JStr msg_mode_unreadable)]
         | Got m \<Rightarrow>
             if m \<in> set [''GUIDED'', ''GUIDED_NOGPS'', ''POSHOLD''] then
               JObj [(''can_control'', JBool True), (''current_mode'', JStr m),
                     (''message'', JStr msg_joystick_enabled)]
             else if m = ''LOITER'' then
               JObj [(''can_control'', JBool False), (''current_mode'', JStr m),
                     (''message'', JStr msg_loiter_no_joystick)]
             else if m = ''LAND'' then
               JObj [(''can_control'', JBool False), (''current_mode'', JStr m),
                     (''message'', JStr msg_land_no_joystick)]
             else
               JObj [(''can_control'', JBool False), (''current_mode'', JStr m),
                     (''message'', JStr msg_mode_no_joystick)])
      else
        JObj [(''can_control'', JBool False), (''current_mode'', JNull), (''message'', JStr [])])"

text \<open>
  \<open>get_basic_status\<close>: the items of the status dictionary. The key \<open>attitude\<close> is
  absent when the vehicle has no such attribute.
\<close>

definition get_basic_status :: "world \<Rightarrow> (string \<times> json) list" where
  "get_basic_status w =
     (case vehicle w of
        None \<Rightarrow> []
      | Some v \<Rightarrow>
          (let s = read_vehicle v w in
             [(''mode'', (case mode_name s of Got m \<Rightarrow> JStr m | Raised _ \<Rightarrow> JNull)),
              (''armed'', JBool (armed s)),
              (''is_armable'', attr_or_none (attrs s ''is_armable'')),
              (''ekf_ok'', attr_or_none (attrs s ''ekf_ok'')),
              (''gps_fix'',
                 (case attrs s ''gps_0'' of Got g \<Rightarrow> getattr g ''fix_type'' | Raised _ \<Rightarrow> JNull)),
              (''satellites'',
                 (case attrs s ''gps_0'' of
                    Got g \<Rightarrow> getattr g ''satellites_visible''
                  | Raised _ \<Rightarrow> JNull)),
              (''altitude'', JNum (safe_alt w)),
              (''groundspeed'', attr_or_none (attrs s ''groundspeed'')),
              (''heading'', attr_or_none (attrs s ''heading''))]
             @ (case attrs s ''attitude'' of
                  Raised _ \<Rightarrow> []
                | Got a \<Rightarrow>
                    [(''attitude'',
                      sub_attrs (Got a)
                        [(''roll'', ''roll''), (''pitch'', ''pitch''), (''yaw'', ''yaw'')])])
             @ [(''battery'',
                   sub_attrs (attrs s ''battery'')
                     [(''voltage'', ''voltage''), (''current'', ''current''), (''level'', ''level'')]),
                (''takeoff_in_progress'', JBool (takeoff_in_progress w)),
                (''takeoff_target_alt'',
                   (case takeoff_target_alt w of None \<Rightarrow> JNull | Some a \<Rightarrow> JNum a)),
                (''landing_in_progress'', JBool (landing_in_progress w)),
                (''control_status'', control_status v w)]))"

text \<open>\<open>list(recent_statustext)[-5:]\<close>, each tuple as \<open>json.dumps\<close> writes it.\<close>

definition last_statustext :: "world \<Rightarrow> json" where
  "last_statustext w =
     JArr (map (\<lambda>e. JArr [JNum (fst e), fst (snd e), JStr (snd (snd e))])
            (drop (length (recent_statustext w) - 5) (recent_statustext w)))"

text \<open>
  \<open>_statustext_listener\<close>: append to the ring of 50 entries, NUL characters removed
  from the text.
\<close>

definition statustext_listener :: "json \<Rightarrow> string \<Rightarrow> world \<Rightarrow> world" where
  "statustext_listener severity text w =
     (let xs = recent_statustext w @ [(now w, severity, filter (\<lambda>c. c \<noteq> CHR 0x00) text)]
      in w\<lparr>recent_statustext := drop (length xs - 50) xs\<rparr>)"

subsection \<open>The control channel\<close>

text \<open>
  \<open>ControlWS.on_message\<close>, one definition for each branch. The result is the list of
  replies handed to \<open>write_message\<close> (the dictionary given to \<open>json.dumps\<close>), or the
  exception that leaves the handler; in every branch the write is the last step, so an
  exception leaves nothing written.

  The acknowledgements are made of literals of the source, values of the request and
  ASCII text, which \<open>json.dumps\<close> accepts. Two replies carry byte strings supplied by
  the vehicle: the exception text in the brake branch and the status report of the diag
  branch. There \<open>json.dumps\<close> can raise, and then nothing is written.
\<close>

definition on_joystick :: "pylib \<Rightarrow> (string \<times> json) list \<Rightarrow> world \<Rightarrow> (exn + json list) \<times> world" where
  "on_joystick lib d w =
     (if (case vehicle w of
            None \<Rightarrow> False
          | Some v \<Rightarrow> mode_name (read_vehicle v w) = Got ''LOITER'') then
        (Inr [JObj [(''type'', JStr ''ack''), (''cmd'', JStr ''joystick''), (''ok'', JBool False),
                    (''msg'', JStr msg_loiter_no_joystick)]], w)
      else
        (case py_float lib (dict_get d ''vx'' (JNum 0)) of
           Inl e \<Rightarrow> (Inl e, w)
         | Inr velx \<Rightarrow>
        (case py_float lib (dict_get d ''vy'' (JNum 0)) of
           Inl e \<Rightarrow> (Inl e, w)
         | Inr vely \<Rightarrow>
        (case py_float lib (dict_get d ''vz'' (JNum 0)) of
           Inl e \<Rightarrow> (Inl e, w)
         | Inr velz \<Rightarrow>
        (case py_float lib (dict_get d ''yaw_rate'' (JNum 0)) of
           Inl e \<Rightarrow> (Inl e, w)
         | Inr yr \<Rightarrow>
             (Inr [JObj [(''type'', JStr ''ack''), (''cmd'', JStr ''joystick''), (''ok'', JBool True)]],
              w\<lparr>last_velocity_cmd :=
                   \<lparr>cmd_vx = velx, cmd_vy = vely, cmd_vz = velz, cmd_yaw_rate = yr\<rparr>,
                 last_joystick_time := now w\<rparr>))))))"

definition on_mode :: "pylib \<Rightarrow> (string \<times> json) list \<Rightarrow> world \<Rightarrow> (exn + json list) \<times> world" where
  "on_mode lib d w =
     (case py_str lib (dict_get d ''mode'' (JStr [])) of
        Inl e \<Rightarrow> (Inl e, w)
      | Inr s \<Rightarrow>
          (let m = upper s in
             if m = [] then
               (Inr [JObj [(''type'', JStr ''ack''), (''cmd'', JStr ''mode''), (''ok'', JBool False),
                           (''msg'', JStr msg_empty_mode)]], w)
             else
               (case ensure_mode m (PyInt 3) 6.0 w of
                  (Inl e, w') \<Rightarrow> (Inl e, w')
                | (Inr ok, w') \<Rightarrow>
                    (Inr [JObj [(''type'', JStr ''ack''), (''cmd'', JStr ''mode''),
                                (''requested'', JStr m), (''ok'', JBool ok)]], w'))))"

definition on_arm :: "world \<Rightarrow> (exn + json list) \<times> world" where
  "on_arm w =
     (case arm_vehicle w of
        (ok, w') \<Rightarrow>
          (Inr [JObj [(''type'', JStr ''ack''), (''cmd'', JStr ''arm''), (''ok'', JBool ok)]], w'))"

definition on_disarm :: "world \<Rightarrow> (exn + json list) \<times> world" where
  "on_disarm w =
     (case disarm_vehicle w of
        (ok, w') \<Rightarrow>
          (Inr [JObj [(''type'', JStr ''ack''), (''cmd'', JStr ''disarm''), (''ok'', JBool ok)]], w'))"

text \<open>The takeoff runs in a thread of its own; the reply acknowledges the request.\<close>

definition on_takeoff :: "pylib \<Rightarrow> (string \<times> json) list \<Rightarrow> world \<Rightarrow> (exn + json list) \<times> world" where
  "on_takeoff lib d w =
     (case py_float lib (dict_get d ''alt'' (JNum DEFAULT_TAKEOFF_ALT)) of
        Inl e \<Rightarrow> (Inl e, w)
      | Inr a \<Rightarrow>
          (Inr [JObj [(''type'', JStr ''ack''), (''cmd'', JStr ''takeoff''), (''alt'', JNum a),
                      (''ok'', JBool True)]],
           w\<lparr>threads := threads w @ [DoTakeoffThread a]\<rparr>))"

definition on_land :: "world \<Rightarrow> (exn + json list) \<times> world" where
  "on_land w =
     (case ensure_mode ''LAND'' (PyInt 3) 6.0 w of
        (Inl e, w') \<Rightarrow> (Inl e, w')
      | (Inr ok, w') \<Rightarrow>
          (Inr [JObj [(''type'', JStr ''ack''), (''cmd'', JStr ''land''), (''ok'', JBool ok)]],
           if ok then w'\<lparr>landing_in_progress := True\<rparr> else w'))"

text \<open>
  In the brake branch the mode is read inside \<open>try\<close>: an exception there is answered
  with its text, from inside the \<open>except\<close> clause, so that a failure of \<open>json.dumps\<close>
  on that text leaves the handler.
\<close>

definition exn_text :: "exn \<Rightarrow> string" where
  "exn_text e =
     (case e of
        TypeError \<Rightarrow> ''TypeError''
      | ValueError \<Rightarrow> ''ValueError''
      | AttributeError \<Rightarrow> ''AttributeError''
      | OverflowError \<Rightarrow> ''OverflowError''
      | UnicodeEncodeError \<Rightarrow> ''UnicodeEncodeError''
      | UnicodeDecodeError \<Rightarrow> ''UnicodeDecodeError'')"

definition on_brake :: "pylib \<Rightarrow> world \<Rightarrow> (exn + json list) \<times> world" where
  "on_brake lib w =
     (case vehicle w of
        None \<Rightarrow>
          (Inr [JObj [(''type'', JStr ''ack''), (''cmd'', JStr ''brake''), (''ok'', JBool False),
                      (''msg'', JStr ''vehicle not connected'')]], w)
      | Some v \<Rightarrow>
          if \<not> armed (read_vehicle v w) then
            (Inr [JObj [(''type'', JStr ''ack''), (''cmd'', JStr ''brake''), (''ok'', JBool False),
                        (''msg'', JStr ''not armed'')]], w)
          else
            (case mode_name (read_vehicle v w) of
               Raised txt \<Rightarrow>
                 if utf8_decodes lib txt then
                   (Inr [JObj [(''type'', JStr ''ack''), (''cmd'', JStr ''brake''),
                               (''ok'', JBool False), (''msg'', JStr txt)]], w)
                 else (Inl UnicodeDecodeError, w)
             | Got m \<Rightarrow>
                 if m \<in> set [''GUIDED'', ''GUIDED_NOGPS'', ''POSHOLD''] then
                   (Inr [JObj [(''type'', JStr ''ack''), (''cmd'', JStr ''brake''),
                               (''ok'', JBool True)]],
                    (send_ned_velocity 0 0 0 0 w)
                      \<lparr>last_velocity_cmd :=
                         \<lparr>cmd_vx = 0, cmd_vy = 0, cmd_vz = 0, cmd_yaw_rate = 0\<rparr>,
                       last_joystick_time := 0\<rparr>)
                 else if m = ''LOITER'' then
                   (Inr [JObj [(''type'', JStr ''ack''), (''cmd'', JStr ''brake''),
                               (''ok'', JBool True), (''msg'', JStr msg_loiter_hovering)]], w)
                 else
                   (case ensure_mode ''LOITER'' (PyInt 3) 6.0 w of
                      (Inl e, w') \<Rightarrow>
                        (Inr [JObj [(''type'', JStr ''ack''), (''cmd'', JStr ''brake''),
                                    (''ok'', JBool False), (''msg'', JStr (exn_text e))]], w')
                    | (Inr ok, w') \<Rightarrow>
                        (Inr [JObj [(''type'', JStr ''ack''), (''cmd'', JStr ''brake''),
                                    (''ok'', JBool ok), (''msg'', JStr ''switched to LOITER'')]],
                         w'))))"

definition diag_reply :: "world \<Rightarrow> json" where
  "diag_reply w =
     JObj [(''type'', JStr ''diag_reply''),
           (''diag'', JObj (get_basic_status w @ [(''recent_statustext'', last_statustext w)]))]"

definition on_diag :: "pylib \<Rightarrow> world \<Rightarrow> (exn + json list) \<times> world" where
  "on_diag lib w =
     (if dumps_accepts lib (diag_reply w) then (Inr [diag_reply w], w)
      else (Inl UnicodeDecodeError, w))"

text \<open>
  The dispatch. \<open>data.get("type")\<close> raises \<open>AttributeError\<close> when the parsed message
  is no dictionary; an unknown type is answered with a negative acknowledgement.
\<close>

definition on_message :: "pylib \<Rightarrow> string \<Rightarrow> world \<Rightarrow> (exn + json list) \<times> world" where
  "on_message lib message w =
     (case json_loads lib message of
        Inl detail \<Rightarrow>
          (Inr [JObj [(''type'', JStr ''error''), (''msg'', JStr ''invalid json''),
                      (''detail'', JStr detail)]], w)
      | Inr data \<Rightarrow>
          (case data of
             JObj d \<Rightarrow>
               (let typ = dict_get d ''type'' JNull in
                  if typ = JStr ''joystick'' then on_joystick lib d w
                  else if typ = JStr ''mode'' then on_mode lib d w
                  else if typ = JStr ''arm'' then on_arm w
                  else if typ = JStr ''disarm'' then on_disarm w
                  else if typ = JStr ''takeoff'' then on_takeoff lib d w
                  else if typ = JStr ''land'' then on_land w
                  else if typ = JStr ''brake'' then on_brake lib w
                  else if typ = JStr ''diag'' then on_diag lib w
                  else
                    (Inr [JObj [(''type'', JStr ''ack''), (''cmd'', typ), (''ok'', JBool False),
                                (''msg'', JStr ''unknown type'')]], w))
           | _ \<Rightarrow> (Inl AttributeError, w)))"

text \<open>
  A command is well formed when it is a dictionary (each key once, as in a Python
  dictionary) whose numeric fields \<open>float()\<close> accepts (so no integer beyond the range of
  a double) and whose mode \<open>str()\<close> accepts.
\<close>

definition well_formed :: "pylib \<Rightarrow> json \<Rightarrow> bool" where
  "well_formed lib data =
     (case data of
        JObj d \<Rightarrow>
          distinct (map fst d) \<and>
          (let typ = dict_get d ''type'' JNull in
             if typ = JStr ''joystick'' then
               returned (py_float lib (dict_get d ''vx'' (JNum 0)))
               \<and> returned (py_float lib (dict_get d ''vy'' (JNum 0)))
               \<and> returned (py_float lib (dict_get d ''vz'' (JNum 0)))
               \<and> returned (py_float lib (dict_get d ''yaw_rate'' (JNum 0)))
             else if typ = JStr ''mode'' then returned (py_str lib (dict_get d ''mode'' (JStr [])))
             else if typ = JStr ''takeoff'' then
               returned (py_float lib (dict_get d ''alt'' (JNum DEFAULT_TAKEOFF_ALT)))
             else True)
      | _ \<Rightarrow> False)"

text \<open>
  The reply to a command can be encoded when the vehicle's texts that enter it decode:
  for \<open>brake\<close> the text of an exception met while reading the mode of an armed
  vehicle, for \<open>diag\<close> the strings of the report.
\<close>

definition reply_encodes :: "pylib \<Rightarrow> json \<Rightarrow> world \<Rightarrow> bool" where
  "reply_encodes lib data w =
     (case data of
        JObj d \<Rightarrow>
          (let typ = dict_get d ''type'' JNull in
             if typ = JStr ''brake'' then
               (case vehicle w of
                  None \<Rightarrow> True
                | Some v \<Rightarrow>
                    if armed (read_vehicle v w) then
                      (case mode_name (read_vehicle v w) of
                         Raised txt \<Rightarrow> utf8_decodes lib txt
                       | Got m \<Rightarrow> True)
                    else True)
             else if typ = JStr ''diag'' then dumps_accepts lib (diag_reply w)
             else True)
      | _ \<Rightarrow> True)"

section \<open>Control loop\<close>

text \<open>
  One iteration of the \<open>while True\<close> loop of \<open>control_loop\<close>. The \<open>continue\<close> of the
  takeoff/landing branch skips the sleep of \<open>1.0/CONTROL_HZ\<close> at the end of the body.
  A failing read of \<open>vehicle.mode.name\<close> leaves \<open>mode_name\<close> at the empty string.
\<close>

definition control_tick :: "world \<Rightarrow> world" where
  "control_tick w =
     (case vehicle w of
        None \<Rightarrow> time_sleep (1 / CONTROL_HZ) (time_sleep 0.1 w)
      | Some v \<Rightarrow>
          if armed (read_vehicle v w) then
            if takeoff_in_progress w \<or> landing_in_progress w then time_sleep 0.1 w
            else
              let mode = (case mode_name (read_vehicle v w) of Got m \<Rightarrow> m | Raised _ \<Rightarrow> [])
              in
                if mode \<in> set [''GUIDED'', ''GUIDED_NOGPS'', ''BRAKE'', ''POSHOLD''] then
                  let age = now w - last_joystick_time w;
                      cmd = last_velocity_cmd w
                  in
                    time_sleep (1 / CONTROL_HZ)
                      (if age > VELOCITY_TIMEOUT then send_ned_velocity 0 0 0 0 w
                       else send_ned_velocity (cmd_vx cmd) (cmd_vy cmd) (cmd_vz cmd)
                              (cmd_yaw_rate cmd) w)
                else if mode = ''LAND'' then
                  time_sleep (1 / CONTROL_HZ)
                    (if safe_alt w \<le> 0.2 then
                       (if landing_in_progress w then w\<lparr>landing_in_progress := False\<rparr> else w)
                     else w)
                else time_sleep (1 / CONTROL_HZ) w
          else time_sleep (1 / CONTROL_HZ) (time_sleep 0.1 w))"

text \<open>The type of a request, \<open>data.get("type")\<close>.\<close>

definition request_type :: "json \<Rightarrow> json" where
  "request_type data = (case data of JObj d \<Rightarrow> dict_get d ''type'' JNull | _ \<Rightarrow> JNull)"

text \<open>The form \<open>{"type":"ack","cmd":c,"ok":bool,...}\<close> of a reply.\<close>

definition is_ack :: "json \<Rightarrow> json \<Rightarrow> bool" where
  "is_ack c r =
     (field r ''type'' = Some (JStr ''ack'') \<and> field r ''cmd'' = Some c
      \<and> (case field r ''ok'' of Some (JBool b) \<Rightarrow> True | _ \<Rightarrow> False))"

text \<open>Joystick commands handled one after the other.\<close>

definition joystick_updates :: "pylib \<Rightarrow> (string \<times> json) list list \<Rightarrow> world \<Rightarrow> world" where
  "joystick_updates lib ds w = fold (\<lambda>d w'. snd (on_joystick lib d w')) ds w"

section \<open>Example worlds\<close>

definition still_vehicle :: "string \<Rightarrow> bool \<Rightarrow> alt_read \<Rightarrow> vehicle" where
  "still_vehicle m a h =
     (\<lambda>cs t. \<lparr>mode_name = Got m, armed = a, altitude = h, takeoff_raises = None,
              attrs = (\<lambda>k. Raised [])\<rparr>)"

definition world0 :: world where
  "world0 =
     \<lparr>vehicle = None,
      last_velocity_cmd = \<lparr>cmd_vx = 0, cmd_vy = 0, cmd_vz = 0, cmd_yaw_rate = 0\<rparr>,
      last_joystick_time = 0, takeoff_in_progress = False, takeoff_target_alt = None,
      landing_in_progress = False, recent_statustext = [], now = 0, calls = [],
      threads = []\<rparr>"

text \<open>
  Armed in GUIDED at 1 m, last joystick command \<open>{vx:1, vy:0, vz:0, yaw_rate:0}\<close> at
  time 0, the clock at 0.6 s.
\<close>

definition stale_world :: world where
  "stale_world =
     world0\<lparr>vehicle := Some (still_vehicle ''GUIDED'' True (Alt 1)),
            last_velocity_cmd := \<lparr>cmd_vx = 1, cmd_vy = 0, cmd_vz = 0, cmd_yaw_rate = 0\<rparr>,
            now := 0.6\<rparr>"

text \<open>The same vehicle with a fresh command that turns: yaw rate 1, 0.1 s old.\<close>

definition fresh_world :: world where
  "fresh_world =
     world0\<lparr>vehicle := Some (still_vehicle ''GUIDED'' True (Alt 1)),
            last_velocity_cmd := \<lparr>cmd_vx = 1, cmd_vy = 2, cmd_vz = 3, cmd_yaw_rate = 1\<rparr>,
            now := 0.1\<rparr>"

text \<open>Armed in LAND, landing in progress, 0.1 m above the ground.\<close>

definition landed_world :: world where
  "landed_world =
     world0\<lparr>vehicle := Some (still_vehicle ''LAND'' True (Alt 0.1)),
            landing_in_progress := True, now := 10\<rparr>"

text \<open>Disarmed on the ground in STABILIZE.\<close>

definition grounded_world :: world where
  "grounded_world = world0\<lparr>vehicle := Some (still_vehicle ''STABILIZE'' False (Alt 0))\<rparr>"

text \<open>A takeoff to 1.5 m in progress, the vehicle at 1.5 m.\<close>

definition climbed_world :: world where
  "climbed_world =
     world0\<lparr>vehicle := Some (still_vehicle ''GUIDED'' True (Alt 1.5)),
            takeoff_in_progress := True, takeoff_target_alt := Some 1.5\<rparr>"

text \<open>Disarmed, with a reported altitude of 1 m.\<close>

definition parked_high_world :: world where
  "parked_high_world = world0\<lparr>vehicle := Some (still_vehicle ''GUIDED'' False (Alt 1))\<rparr>"

text \<open>Armed in GUIDED, the altitude field \<open>None\<close>.\<close>

definition blind_world :: world where
  "blind_world = world0\<lparr>vehicle := Some (still_vehicle ''GUIDED'' True AltNone)\<rparr>"

text \<open>
  A runtime that parses four messages and rejects everything else; \<open>float()\<close> accepts no
  string, and only ASCII is taken to decode.
\<close>

definition example_lib :: pylib where
  "example_lib =
     \<lparr>json_loads = (\<lambda>s.
        if s = ''{\"type\": \"diag\"}'' then Inr (JObj [(''type'', JStr ''diag'')])
        else if s = ''{\"type\": \"arm\"}'' then Inr (JObj [(''type'', JStr ''arm'')])
        else if s = ''{\"type\": \"joystick\", \"vx\": 1}'' then
          Inr (JObj [(''type'', JStr ''joystick''), (''vx'', JInt 1)])
        else if s = ''{\"type\": \"dance\"}'' then Inr (JObj [(''type'', JStr ''dance'')])
        else Inl ''No JSON object could be decoded''),
      float_of_str = (\<lambda>s. None),
      repr = (\<lambda>x. ''?''),
      utf8_decodes = list_all (\<lambda>c. (of_char c :: nat) < 128)\<rparr>"

section \<open>The control loop: watchdog and forwarding\<close>

lemma calls_time_sleep: "calls (time_sleep d w) = calls w"
  by (simp add: time_sleep_def)

lemma calls_send_ned_velocity:
  "vehicle w = Some v \<Longrightarrow>
   calls (send_ned_velocity a b c r w) =
     calls w @ [SendMavlink (set_position_target_local_ned_encode 0 0 0 1 4039 0 0 0 a b c 0 0 0 0 0)]"
  by (simp add: send_ned_velocity_def vehicle_call_def)

text \<open>
  C1. On a tick where the vehicle is available and armed, neither takeoff nor landing is in
  progress, the mode is one of GUIDED, GUIDED_NOGPS, BRAKE, POSHOLD and the stored command
  is older than 0.5 s, the one message handed to the vehicle has velocity (0, 0, 0) and yaw
  rate 0, whatever command \<open>c\<close> is stored.
\<close>

theorem watchdog_sends_zero:
  assumes "vehicle w = Some v"
    and "armed (read_vehicle v w)"
    and "\<not> takeoff_in_progress w"
    and "\<not> landing_in_progress w"
    and "mode_name (read_vehicle v w) = Got m"
    and "m \<in> {''GUIDED'', ''GUIDED_NOGPS'', ''BRAKE'', ''POSHOLD''}"
    and "now w - last_joystick_time w > 0.5"
  shows "calls (control_tick (w\<lparr>last_velocity_cmd := c\<rparr>)) =
           calls w @ [SendMavlink
             (set_position_target_local_ned_encode 0 0 0 1 4039 0 0 0 0 0 0 0 0 0 0 0)]"
proof -
  let ?w = "w\<lparr>last_velocity_cmd := c\<rparr>"
  have rd: "read_vehicle v ?w = read_vehicle v w"
    by (simp add: read_vehicle_def)
  have md: "m \<in> set [''GUIDED'', ''GUIDED_NOGPS'', ''BRAKE'', ''POSHOLD'']"
    using assms(6) by simp
  have old: "now ?w - last_joystick_time ?w > VELOCITY_TIMEOUT"
    using assms(7) by (simp add: VELOCITY_TIMEOUT_def)
  have "control_tick ?w = time_sleep (1 / CONTROL_HZ) (send_ned_velocity 0 0 0 0 ?w)"
    unfolding control_tick_def Let_def using assms(1-5) md old rd by simp
  then show ?thesis
    using assms(1) by (simp add: calls_time_sleep calls_send_ned_velocity)
qed

theorem watchdog_sends_zero_witness:
  "calls (control_tick stale_world) =
     [SendMavlink (set_position_target_local_ned_encode 0 0 0 1 4039 0 0 0 0 0 0 0 0 0 0 0)]
   \<and> cmd_vx (last_velocity_cmd stale_world) = 1"
  using watchdog_sends_zero [of stale_world "still_vehicle ''GUIDED'' True (Alt 1)" "''GUIDED''"
      "last_velocity_cmd stale_world"]
  by (simp add: stale_world_def world0_def still_vehicle_def read_vehicle_def)

lemma on_joystick_keeps:
  "takeoff_in_progress (snd (on_joystick lib d w)) = takeoff_in_progress w
   \<and> landing_in_progress (snd (on_joystick lib d w)) = landing_in_progress w
   \<and> calls (snd (on_joystick lib d w)) = calls w"
  by (simp add: on_joystick_def split: sum.splits)

lemma joystick_updates_keep:
  "takeoff_in_progress (joystick_updates lib ds w) = takeoff_in_progress w
   \<and> landing_in_progress (joystick_updates lib ds w) = landing_in_progress w
   \<and> calls (joystick_updates lib ds w) = calls w"
  unfolding joystick_updates_def
  by (induction ds arbitrary: w) (simp_all add: on_joystick_keeps)

lemma flagged_tick_silent:
  assumes "takeoff_in_progress w \<or> landing_in_progress w"
  shows "calls (control_tick w) = calls w"
proof (cases "vehicle w")
  case None
  then show ?thesis
    by (simp add: control_tick_def calls_time_sleep)
next
  case (Some v)
  show ?thesis
  proof (cases "armed (read_vehicle v w)")
    case True
    with Some assms have "control_tick w = time_sleep 0.1 w"
      by (auto simp add: control_tick_def)
    then show ?thesis
      by (simp add: calls_time_sleep)
  next
    case False
    with Some show ?thesis
      by (simp add: control_tick_def calls_time_sleep)
  qed
qed

text \<open>
  C2. On a tick where \<open>takeoff_in_progress\<close> or \<open>landing_in_progress\<close> is set, the
  control loop makes no call to the vehicle, for every value of the shared state; and
  joystick commands handled before the tick, however many, change nothing in that: they
  neither clear a flag nor call the vehicle.
\<close>

theorem no_velocity_during_takeoff_or_landing:
  assumes "takeoff_in_progress w \<or> landing_in_progress w"
  shows "calls (control_tick w) = calls w
         \<and> calls (control_tick (joystick_updates lib ds w)) = calls w"
proof -
  have "takeoff_in_progress (joystick_updates lib ds w)
        \<or> landing_in_progress (joystick_updates lib ds w)"
    using assms by (simp add: joystick_updates_keep)
  then have "calls (control_tick (joystick_updates lib ds w)) = calls (joystick_updates lib ds w)"
    by (rule flagged_tick_silent)
  with assms show ?thesis
    by (simp add: flagged_tick_silent joystick_updates_keep)
qed

theorem no_velocity_during_takeoff_or_landing_witness:
  "calls (control_tick (stale_world\<lparr>takeoff_in_progress := True\<rparr>)) = []
   \<and> calls (control_tick
        (joystick_updates example_lib [[(''type'', JStr ''joystick''), (''vx'', JNum 1)]]
           (stale_world\<lparr>takeoff_in_progress := True\<rparr>))) = []"
  using no_velocity_during_takeoff_or_landing [of "stale_world\<lparr>takeoff_in_progress := True\<rparr>"
      example_lib "[[(''type'', JStr ''joystick''), (''vx'', JNum 1)]]"]
  by (simp add: stale_world_def world0_def)

text \<open>
  C3. The claim: a tick with the vehicle armed, in LAND, \<open>landing_in_progress\<close> set and the
  altitude at most 0.2 m clears \<open>landing_in_progress\<close>. In the code the flag is still set
  after the tick: the branch that clears it lies behind the \<open>continue\<close> taken whenever
  the flag is set.
\<close>

theorem landing_flag_survives_tick:
  "armed (read_vehicle (still_vehicle ''LAND'' True (Alt 0.1)) landed_world)
   \<and> mode_name (read_vehicle (still_vehicle ''LAND'' True (Alt 0.1)) landed_world) = Got ''LAND''
   \<and> landing_in_progress landed_world
   \<and> safe_alt landed_world \<le> 0.2
   \<and> landing_in_progress (control_tick landed_world)"
  by (simp add: landed_world_def world0_def still_vehicle_def read_vehicle_def safe_alt_def
      control_tick_def time_sleep_def)

lemma landing_flag_never_cleared:
  "landing_in_progress w \<Longrightarrow> landing_in_progress (control_tick w)"
  by (simp add: control_tick_def time_sleep_def split: option.splits)

text \<open>
  C4. The claim as stated asks that all four components, the yaw rate among them, reach the
  vehicle. It fails on a fresh command with yaw rate 1: the message sent has yaw rate 0.
\<close>

theorem forwarded_yaw_rate_counterexample:
  "armed (read_vehicle (still_vehicle ''GUIDED'' True (Alt 1)) fresh_world)
   \<and> \<not> takeoff_in_progress fresh_world \<and> \<not> landing_in_progress fresh_world
   \<and> now fresh_world - last_joystick_time fresh_world \<le> 0.5
   \<and> cmd_yaw_rate (last_velocity_cmd fresh_world) = 1
   \<and> map msg_yaw_rate (sent_msgs (calls (control_tick fresh_world))) = [0]"
  by (simp add: fresh_world_def world0_def still_vehicle_def read_vehicle_def control_tick_def
      VELOCITY_TIMEOUT_def CONTROL_HZ_def time_sleep_def send_ned_velocity_def vehicle_call_def
      sent_msgs_def set_position_target_local_ned_encode_def)

text \<open>
  C4, amended. On a tick where the vehicle is available and armed, neither takeoff nor
  landing is in progress, the mode is one of GUIDED, GUIDED_NOGPS, BRAKE, POSHOLD and the
  stored command is at most 0.5 s old, the one message handed to the vehicle carries the
  stored \<open>vx\<close>, \<open>vy\<close> and \<open>vz\<close> exactly; the stored yaw rate is passed to
  \<open>send_ned_velocity\<close>, which does not forward it: the message's yaw rate is 0.
\<close>

theorem fresh_command_forwarded:
  assumes "vehicle w = Some v"
    and "armed (read_vehicle v w)"
    and "\<not> takeoff_in_progress w"
    and "\<not> landing_in_progress w"
    and "mode_name (read_vehicle v w) = Got m"
    and "m \<in> {''GUIDED'', ''GUIDED_NOGPS'', ''BRAKE'', ''POSHOLD''}"
    and "now w - last_joystick_time w \<le> 0.5"
  shows "calls (control_tick w) =
           calls w @ [SendMavlink
             (set_position_target_local_ned_encode 0 0 0 1 4039 0 0 0
                (cmd_vx (last_velocity_cmd w)) (cmd_vy (last_velocity_cmd w))
                (cmd_vz (last_velocity_cmd w)) 0 0 0 0 0)]"
proof -
  have md: "m \<in> set [''GUIDED'', ''GUIDED_NOGPS'', ''BRAKE'', ''POSHOLD'']"
    using assms(6) by simp
  have fresh: "\<not> now w - last_joystick_time w > VELOCITY_TIMEOUT"
    using assms(7) by (simp add: VELOCITY_TIMEOUT_def)
  have "control_tick w =
          time_sleep (1 / CONTROL_HZ)
            (send_ned_velocity (cmd_vx (last_velocity_cmd w)) (cmd_vy (last_velocity_cmd w))
               (cmd_vz (last_velocity_cmd w)) (cmd_yaw_rate (last_velocity_cmd w)) w)"
    unfolding control_tick_def Let_def using assms(1-5) md fresh by simp
  then show ?thesis
    using assms(1) by (simp add: calls_time_sleep calls_send_ned_velocity)
qed

theorem fresh_command_forwarded_witness:
  "calls (control_tick fresh_world) =
     [SendMavlink (set_position_target_local_ned_encode 0 0 0 1 4039 0 0 0 1 2 3 0 0 0 0 0)]"
  using fresh_command_forwarded [of fresh_world "still_vehicle ''GUIDED'' True (Alt 1)" "''GUIDED''"]
  by (simp add: fresh_world_def world0_def still_vehicle_def read_vehicle_def)

section \<open>Mode, arm and takeoff\<close>

lemma disarm_wait_calls: "calls (disarm_wait v t0 w) = calls w"
proof (induction v t0 w rule: disarm_wait.induct)
  case (1 v t0 w)
  show ?case
  proof (cases "armed (read_vehicle v w) \<and> now w - t0 < 8")
    case True
    then have "disarm_wait v t0 w = disarm_wait v t0 (time_sleep 0.3 w)"
      by (subst disarm_wait.simps) simp
    with 1 True show ?thesis
      by (simp add: calls_time_sleep)
  next
    case False
    then have "disarm_wait v t0 w = w"
      by (subst disarm_wait.simps) auto
    then show ?thesis by simp
  qed
qed

lemma watcher_loop_target: "takeoff_target_alt (watcher_loop t t0 w) = takeoff_target_alt w"
proof (induction t t0 w rule: watcher_loop.induct)
  case (1 t t0 w)
  show ?case
  proof (cases "now w - t0 < 30 \<and> \<not> safe_alt w \<ge> t * 0.98")
    case True
    then have "watcher_loop t t0 w = watcher_loop t t0 (time_sleep 0.5 w)"
      by (subst watcher_loop.simps) simp
    with 1 True show ?thesis
      by (simp add: time_sleep_def)
  next
    case False
    then have "watcher_loop t t0 w = w \<or> watcher_loop t t0 w = time_sleep 2.0 w"
      by (subst (1 2) watcher_loop.simps) auto
    then show ?thesis
      by (auto simp add: time_sleep_def)
  qed
qed

lemma watcher_ends_takeoff: "\<not> takeoff_in_progress (watcher t w)"
  by (simp add: watcher_def)

lemma watcher_keeps_target: "takeoff_target_alt (watcher t w) = takeoff_target_alt w"
  by (simp add: watcher_def watcher_loop_target)

lemma do_takeoff_outside_guided:
  assumes "vehicle w = Some v"
    and "\<not> safe_alt w > 0.5"
    and "mode_name (read_vehicle v w) \<noteq> Got ''GUIDED''"
  shows "do_takeoff t w = (Inl TypeError, w)"
  using assms
  by (simp add: do_takeoff_def do_takeoff_steps_def ensure_mode_def upper_def upper_char_def)

lemma do_takeoff_in_guided_armed:
  assumes "vehicle w = Some v"
    and "\<not> safe_alt w > 0.5"
    and "mode_name (read_vehicle v w) = Got ''GUIDED''"
    and "armed (read_vehicle v w)"
    and "takeoff_raises (read_vehicle v w) = None"
  shows "do_takeoff t w =
           (Inr (), w\<lparr>takeoff_in_progress := True, takeoff_target_alt := Some t,
                      calls := calls w @ [SimpleTakeoff t],
                      threads := threads w @ [WatcherThread t]\<rparr>)"
  using assms
  by (simp add: do_takeoff_def do_takeoff_steps_def ensure_mode_def upper_def upper_char_def
      arm_vehicle_def vehicle_call_def)

text \<open>
  C5. The claim: \<open>do_takeoff\<close> never raises and brings the vehicle into GUIDED through the
  mode controller before arming. In the code, on the ground in STABILIZE, the call raises
  \<open>TypeError\<close> and has made no call to the vehicle: \<open>"GUIDED_NOGPS"\<close> is passed where
  \<open>ensure_mode\<close> expects the number of attempts.
\<close>

theorem do_takeoff_raises_on_ground:
  "safe_alt grounded_world \<le> 0.5
   \<and> do_takeoff 1.5 grounded_world = (Inl TypeError, grounded_world)
   \<and> calls grounded_world = []"
  by (simp add: grounded_world_def world0_def still_vehicle_def read_vehicle_def safe_alt_def
      do_takeoff_def do_takeoff_steps_def ensure_mode_def upper_def upper_char_def)

text \<open>
  C6. The claim: when the takeoff monitor ends, the takeoff target is cleared together with
  the flag. In the code the flag is cleared and the target stays: after the watcher of a
  takeoff to 1.5 m has seen 1.5 m, \<open>takeoff_target_alt\<close> is still 1.5.
\<close>

theorem watcher_leaves_target:
  "takeoff_in_progress climbed_world
   \<and> \<not> takeoff_in_progress (watcher 1.5 climbed_world)
   \<and> takeoff_target_alt (watcher 1.5 climbed_world) = Some 1.5"
  by (simp add: climbed_world_def world0_def still_vehicle_def read_vehicle_def safe_alt_def
      watcher_def watcher_loop.simps time_sleep_def)

text \<open>
  C7. The claim as stated covers every prior armed state. It fails for a disarmed vehicle
  reporting 1 m: the call returns success.
\<close>

theorem disarm_when_disarmed_counterexample:
  "safe_alt parked_high_world > 0.2
   \<and> disarm_vehicle parked_high_world = (True, parked_high_world)"
  by (simp add: parked_high_world_def world0_def still_vehicle_def read_vehicle_def safe_alt_def
      disarm_vehicle_def)

text \<open>
  C7, amended. With the vehicle available and the altitude above 0.2 m: if the vehicle is
  armed, \<open>disarm_vehicle\<close> returns failure, makes no write to the vehicle and leaves it
  armed; if it is already disarmed, the call returns success, also without a write.
\<close>

theorem disarm_refused_in_flight:
  assumes "vehicle w = Some v"
    and "safe_alt w > 0.2"
  shows "(armed (read_vehicle v w) \<longrightarrow>
            disarm_vehicle w = (False, w) \<and> armed (read_vehicle v (snd (disarm_vehicle w))))
         \<and> (\<not> armed (read_vehicle v w) \<longrightarrow> disarm_vehicle w = (True, w))"
  using assms by (simp add: disarm_vehicle_def)

theorem disarm_refused_in_flight_witness:
  "disarm_vehicle stale_world = (False, stale_world)
   \<and> disarm_vehicle parked_high_world = (True, parked_high_world)"
  using disarm_refused_in_flight [of stale_world "still_vehicle ''GUIDED'' True (Alt 1)"]
    disarm_refused_in_flight [of parked_high_world "still_vehicle ''GUIDED'' False (Alt 1)"]
  by (simp add: stale_world_def parked_high_world_def world0_def still_vehicle_def
      read_vehicle_def safe_alt_def)

text \<open>
  C9. \<open>ensure_mode\<close> upper-cases its target and compares it with \<open>vehicle.mode.name\<close>.
  When the vehicle is already in that mode, the call returns success and the world is
  unchanged: no write to the vehicle, no time spent, for every value of \<open>attempts\<close> and
  \<open>wait_each\<close>.
\<close>

theorem ensure_mode_idempotent:
  assumes "vehicle w = Some v"
    and "mode_name (read_vehicle v w) = Got (upper target)"
  shows "ensure_mode target attempts wait_each w = (Inr True, w)"
  using assms by (simp add: ensure_mode_def)

theorem ensure_mode_idempotent_witness:
  "ensure_mode ''GUIDED'' (PyInt 3) 6.0 stale_world = (Inr True, stale_world)
   \<and> ensure_mode ''guided'' (PyInt 3) 6.0 stale_world = (Inr True, stale_world)"
  using ensure_mode_idempotent [of stale_world "still_vehicle ''GUIDED'' True (Alt 1)" "''GUIDED''"
      "PyInt 3" "6.0"]
    ensure_mode_idempotent [of stale_world "still_vehicle ''GUIDED'' True (Alt 1)" "''guided''"
      "PyInt 3" "6.0"]
  by (simp add: stale_world_def world0_def still_vehicle_def read_vehicle_def upper_def
      upper_char_def)

text \<open>
  C10. \<open>safe_alt\<close> is 0 when there is no vehicle and when the altitude read raises,
  meets a missing location or frame, or yields \<open>None\<close>. With a vehicle in that state,
  \<open>disarm_vehicle\<close> on an armed vehicle is not refused: it writes \<open>vehicle.armed = False\<close>;
  and \<open>do_takeoff\<close> is not rejected as airborne: it goes on to its steps.
\<close>

theorem unreadable_altitude_is_ground:
  "(vehicle w = None \<longrightarrow> safe_alt w = 0)
   \<and> (vehicle w = Some v \<and> (\<forall>a. altitude (read_vehicle v w) \<noteq> Alt a) \<longrightarrow>
        safe_alt w = 0
        \<and> (armed (read_vehicle v w) \<longrightarrow>
             calls (snd (disarm_vehicle w)) = calls w @ [SetArmed False])
        \<and> do_takeoff t w = do_takeoff_steps t w)"
proof (intro conjI impI)
  assume "vehicle w = None"
  then show "safe_alt w = 0"
    by (simp add: safe_alt_def)
next
  assume h: "vehicle w = Some v \<and> (\<forall>a. altitude (read_vehicle v w) \<noteq> Alt a)"
  then show z: "safe_alt w = 0"
    by (cases "altitude (read_vehicle v w)") (simp_all add: safe_alt_def)
  from h z show "do_takeoff t w = do_takeoff_steps t w"
    by (simp add: do_takeoff_def)
  assume "armed (read_vehicle v w)"
  with h z show "calls (snd (disarm_vehicle w)) = calls w @ [SetArmed False]"
    by (simp add: disarm_vehicle_def Let_def disarm_wait_calls vehicle_call_def)
qed

theorem unreadable_altitude_is_ground_witness:
  "safe_alt world0 = 0
   \<and> safe_alt blind_world = 0
   \<and> calls (snd (disarm_vehicle blind_world)) = [SetArmed False]
   \<and> do_takeoff 1.5 blind_world = do_takeoff_steps 1.5 blind_world"
  using unreadable_altitude_is_ground [of world0 "still_vehicle ''GUIDED'' True AltNone" "1.5"]
    unreadable_altitude_is_ground [of blind_world "still_vehicle ''GUIDED'' True AltNone" "1.5"]
  by (simp add: blind_world_def world0_def still_vehicle_def read_vehicle_def)

section \<open>The control channel: one reply for each message\<close>

lemma ensure_mode_int_returns:
  "\<exists>ok w'. ensure_mode target (PyInt n) wait_each w = (Inr ok, w')"
  by (auto simp add: ensure_mode_def Let_def split: option.splits)

lemma is_ack_plain:
  "is_ack c (JObj ((''type'', JStr ''ack'') # (''cmd'', c) # (''ok'', JBool b) # rest))"
  by (simp add: is_ack_def field_def)

lemma is_ack_extra:
  "k \<noteq> ''type'' \<Longrightarrow> k \<noteq> ''cmd'' \<Longrightarrow> k \<noteq> ''ok'' \<Longrightarrow>
   is_ack c (JObj ((''type'', JStr ''ack'') # (''cmd'', c) # (k, x) # (''ok'', JBool b) # rest))"
  by (simp add: is_ack_def field_def)

lemma on_joystick_reply:
  assumes "returned (py_float lib (dict_get d ''vx'' (JNum 0)))"
    and "returned (py_float lib (dict_get d ''vy'' (JNum 0)))"
    and "returned (py_float lib (dict_get d ''vz'' (JNum 0)))"
    and "returned (py_float lib (dict_get d ''yaw_rate'' (JNum 0)))"
  shows "\<exists>r w'. on_joystick lib d w = (Inr [r], w') \<and> is_ack (JStr ''joystick'') r"
  using assms
  by (auto simp add: on_joystick_def returned_def is_ack_plain split: sum.splits)

lemma on_mode_reply:
  assumes "returned (py_str lib (dict_get d ''mode'' (JStr [])))"
  shows "\<exists>r w'. on_mode lib d w = (Inr [r], w') \<and> is_ack (JStr ''mode'') r"
proof -
  from assms obtain s where s: "py_str lib (dict_get d ''mode'' (JStr [])) = Inr s"
    by (auto simp add: returned_def split: sum.splits)
  show ?thesis
  proof (cases "upper s = []")
    case True
    with s show ?thesis
      by (simp add: on_mode_def is_ack_plain)
  next
    case False
    obtain ok w' where "ensure_mode (upper s) (PyInt 3) 6.0 w = (Inr ok, w')"
      using ensure_mode_int_returns by blast
    with s False show ?thesis
      by (simp add: on_mode_def is_ack_extra)
  qed
qed

lemma on_arm_reply: "\<exists>r w'. on_arm w = (Inr [r], w') \<and> is_ack (JStr ''arm'') r"
  by (cases "arm_vehicle w") (simp add: on_arm_def is_ack_plain)

lemma on_disarm_reply: "\<exists>r w'. on_disarm w = (Inr [r], w') \<and> is_ack (JStr ''disarm'') r"
  by (cases "disarm_vehicle w") (simp add: on_disarm_def is_ack_plain)

lemma on_takeoff_reply:
  assumes "returned (py_float lib (dict_get d ''alt'' (JNum DEFAULT_TAKEOFF_ALT)))"
  shows "\<exists>r w'. on_takeoff lib d w = (Inr [r], w') \<and> is_ack (JStr ''takeoff'') r"
  using assms
  by (auto simp add: on_takeoff_def returned_def is_ack_extra split: sum.splits)

lemma on_land_reply: "\<exists>r w'. on_land w = (Inr [r], w') \<and> is_ack (JStr ''land'') r"
proof -
  obtain ok w' where "ensure_mode ''LAND'' (PyInt 3) 6.0 w = (Inr ok, w')"
    using ensure_mode_int_returns by blast
  then show ?thesis
    by (simp add: on_land_def is_ack_plain)
qed

lemma on_brake_reply:
  assumes "reply_encodes lib (JObj d) w"
    and "dict_get d ''type'' JNull = JStr ''brake''"
  shows "\<exists>r w'. on_brake lib w = (Inr [r], w') \<and> is_ack (JStr ''brake'') r"
proof -
  obtain ok w' where "ensure_mode ''LOITER'' (PyInt 3) 6.0 w = (Inr ok, w')"
    using ensure_mode_int_returns by blast
  with assms show ?thesis
    by (auto simp add: reply_encodes_def on_brake_def is_ack_plain
        split: option.splits attr.splits if_splits)
qed

lemma on_diag_reply:
  assumes "reply_encodes lib (JObj d) w"
    and "dict_get d ''type'' JNull = JStr ''diag''"
  shows "on_diag lib w = (Inr [diag_reply w], w)
         \<and> field (diag_reply w) ''type'' = Some (JStr ''diag_reply'')"
  using assms by (simp add: reply_encodes_def on_diag_def diag_reply_def field_def)

lemma on_joystick_overflow:
  "\<not> well_formed lib (JObj [(''type'', JStr ''joystick''), (''vx'', JInt (10 ^ 400))])
   \<and> on_joystick lib [(''type'', JStr ''joystick''), (''vx'', JInt (10 ^ 400))] world0 =
       (Inl OverflowError, world0)"
  by (simp add: well_formed_def on_joystick_def dict_get_def py_float_def returned_def
      world0_def)

lemma on_diag_undecodable:
  "\<not> dumps_accepts lib (diag_reply w) \<Longrightarrow> on_diag lib w = (Inl UnicodeDecodeError, w)"
  by (simp add: on_diag_def)

text \<open>
  C8. The claim as stated gives every well-formed command an acknowledgement. It fails
  for \<open>{"type": "diag"}\<close>: the one reply has the type \<open>diag_reply\<close> and neither \<open>cmd\<close>
  nor \<open>ok\<close>.
\<close>

theorem diag_reply_counterexample:
  "json_loads example_lib ''{\"type\": \"diag\"}'' = Inr (JObj [(''type'', JStr ''diag'')])
   \<and> well_formed example_lib (JObj [(''type'', JStr ''diag'')])
   \<and> reply_encodes example_lib (JObj [(''type'', JStr ''diag'')]) world0
   \<and> on_message example_lib ''{\"type\": \"diag\"}'' world0 =
       (Inr [JObj [(''type'', JStr ''diag_reply''),
                   (''diag'', JObj [(''recent_statustext'', JArr [])])]], world0)"
  by (simp add: example_lib_def well_formed_def reply_encodes_def dumps_accepts_def
      on_message_def dict_get_def on_diag_def diag_reply_def get_basic_status_def
      last_statustext_def world0_def)

text \<open>
  C8, amended. A message that \<open>json.loads\<close> rejects gets exactly one reply, of the form
  \<open>{"type":"error",...}\<close>. A well-formed command whose reply can be encoded gets
  exactly one reply: for the type \<open>diag\<close> a reply of the type \<open>diag_reply\<close>, and for
  every other type, unknown ones included, an acknowledgement
  \<open>{"type":"ack","cmd":...,"ok":bool,...}\<close> whose \<open>cmd\<close> is the type of the request.
  Nothing is said of a command that is not well formed (no dictionary, a field that
  \<open>float()\<close> or \<open>str()\<close> rejects, such as an integer beyond the range of a double) or
  whose reply \<open>json.dumps\<close> rejects: there the handler raises.
\<close>

theorem every_message_answered_once:
  "(json_loads lib message = Inl detail \<longrightarrow>
      on_message lib message w =
        (Inr [JObj [(''type'', JStr ''error''), (''msg'', JStr ''invalid json''),
                    (''detail'', JStr detail)]], w))
   \<and> (json_loads lib message = Inr data \<and> well_formed lib data \<and> reply_encodes lib data w \<longrightarrow>
        (\<exists>r w'. on_message lib message w = (Inr [r], w')
           \<and> (if request_type data = JStr ''diag''
               then field r ''type'' = Some (JStr ''diag_reply'')
               else is_ack (request_type data) r)))"
proof (intro conjI impI)
  assume "json_loads lib message = Inl detail"
  then show "on_message lib message w =
      (Inr [JObj [(''type'', JStr ''error''), (''msg'', JStr ''invalid json''),
                  (''detail'', JStr detail)]], w)"
    by (simp add: on_message_def)
next
  assume h: "json_loads lib message = Inr data \<and> well_formed lib data \<and> reply_encodes lib data w"
  then obtain d where d: "data = JObj d"
    by (cases data) (simp_all add: well_formed_def)
  define rty where "rty = dict_get d ''type'' JNull"
  have rt: "request_type data = rty"
    by (simp add: d rty_def request_type_def)
  have wf: "well_formed lib (JObj d)"
    using h d by simp
  consider (joystick) "rty = JStr ''joystick''" | (mode) "rty = JStr ''mode''"
    | (arm) "rty = JStr ''arm''" | (disarm) "rty = JStr ''disarm''"
    | (takeoff) "rty = JStr ''takeoff''" | (land) "rty = JStr ''land''"
    | (brake) "rty = JStr ''brake''" | (diag) "rty = JStr ''diag''"
    | (unknown) "rty \<notin> {JStr ''joystick'', JStr ''mode'', JStr ''arm'', JStr ''disarm'',
        JStr ''takeoff'', JStr ''land'', JStr ''brake'', JStr ''diag''}"
    by auto
  then show "\<exists>r w'. on_message lib message w = (Inr [r], w')
      \<and> (if request_type data = JStr ''diag''
          then field r ''type'' = Some (JStr ''diag_reply'')
          else is_ack (request_type data) r)"
  proof cases
    case joystick
    then have "on_message lib message w = on_joystick lib d w"
      using h d by (simp add: on_message_def rty_def)
    moreover have "\<exists>r w'. on_joystick lib d w = (Inr [r], w') \<and> is_ack (JStr ''joystick'') r"
      using wf joystick by (intro on_joystick_reply) (simp_all add: well_formed_def rty_def)
    ultimately show ?thesis
      using joystick rt by simp
  next
    case mode
    then have "on_message lib message w = on_mode lib d w"
      using h d by (simp add: on_message_def rty_def)
    moreover have "\<exists>r w'. on_mode lib d w = (Inr [r], w') \<and> is_ack (JStr ''mode'') r"
      using wf mode by (intro on_mode_reply) (simp add: well_formed_def rty_def)
    ultimately show ?thesis
      using mode rt by simp
  next
    case arm
    then have "on_message lib message w = on_arm w"
      using h d by (simp add: on_message_def rty_def)
    then show ?thesis
      using arm rt on_arm_reply [of w] by simp
  next
    case disarm
    then have "on_message lib message w = on_disarm w"
      using h d by (simp add: on_message_def rty_def)
    then show ?thesis
      using disarm rt on_disarm_reply [of w] by simp
  next
    case takeoff
    then have "on_message lib message w = on_takeoff lib d w"
      using h d by (simp add: on_message_def rty_def)
    moreover have "\<exists>r w'. on_takeoff lib d w = (Inr [r], w') \<and> is_ack (JStr ''takeoff'') r"
      using wf takeoff by (intro on_takeoff_reply) (simp add: well_formed_def rty_def)
    ultimately show ?thesis
      using takeoff rt by simp
  next
    case land
    then have "on_message lib message w = on_land w"
      using h d by (simp add: on_message_def rty_def)
    then show ?thesis
      using land rt on_land_reply [of w] by simp
  next
    case brake
    then have "on_message lib message w = on_brake lib w"
      using h d by (simp add: on_message_def rty_def)
    moreover have "\<exists>r w'. on_brake lib w = (Inr [r], w') \<and> is_ack (JStr ''brake'') r"
      using h d brake by (intro on_brake_reply [of lib d]) (simp_all add: rty_def)
    ultimately show ?thesis
      using brake rt by simp
  next
    case diag
    then have "on_message lib message w = on_diag lib w"
      using h d by (simp add: on_message_def rty_def)
    moreover have "on_diag lib w = (Inr [diag_reply w], w)
        \<and> field (diag_reply w) ''type'' = Some (JStr ''diag_reply'')"
      using h d diag by (intro on_diag_reply [of lib d]) (simp_all add: rty_def)
    ultimately show ?thesis
      using diag rt by simp
  next
    case unknown
    then have "on_message lib message w =
        (Inr [JObj [(''type'', JStr ''ack''), (''cmd'', rty), (''ok'', JBool False),
                    (''msg'', JStr ''unknown type'')]], w)"
      using h d by (simp add: on_message_def rty_def)
    then show ?thesis
      using unknown rt by (simp add: is_ack_plain)
  qed
qed

theorem every_message_answered_once_witness:
  "on_message example_lib ''{type: arm'' world0 =
     (Inr [JObj [(''type'', JStr ''error''), (''msg'', JStr ''invalid json''),
                 (''detail'', JStr ''No JSON object could be decoded'')]], world0)
   \<and> on_message example_lib ''{\"type\": \"arm\"}'' world0 =
       (Inr [JObj [(''type'', JStr ''ack''), (''cmd'', JStr ''arm''), (''ok'', JBool False)]],
        world0)
   \<and> on_message example_lib ''{\"type\": \"dance\"}'' world0 =
       (Inr [JObj [(''type'', JStr ''ack''), (''cmd'', JStr ''dance''), (''ok'', JBool False),
                   (''msg'', JStr ''unknown type'')]], world0)
   \<and> is_ack (JStr ''arm'')
       (JObj [(''type'', JStr ''ack''), (''cmd'', JStr ''arm''), (''ok'', JBool False)])
   \<and> is_ack (JStr ''dance'')
       (JObj [(''type'', JStr ''ack''), (''cmd'', JStr ''dance''), (''ok'', JBool False),
              (''msg'', JStr ''unknown type'')])"
  using every_message_answered_once [of example_lib "''{type: arm''"
      "''No JSON object could be decoded''" world0 "JObj [(''type'', JStr ''arm'')]"]
    every_message_answered_once [of example_lib "''{\"type\": \"arm\"}''"
      "''No JSON object could be decoded''" world0 "JObj [(''type'', JStr ''arm'')]"]
    every_message_answered_once [of example_lib "''{\"type\": \"dance\"}''"
      "''No JSON object could be decoded''" world0 "JObj [(''type'', JStr ''dance'')]"]
  by (simp add: example_lib_def well_formed_def reply_encodes_def request_type_def dict_get_def
      on_message_def on_arm_def arm_vehicle_def world0_def is_ack_def field_def)

end
